theory Spec2Isabelle
  imports Main "HOL-Library.Sublist"
begin

section \<open>verify\_docs.py: values, exceptions and library calls\<close>

text \<open>
  The script \<^verbatim>\<open>src/verify_docs.py\<close> is a straight sequence of calls into the Playwright
  library, wrapped in \<^verbatim>\<open>async with\<close> and \<^verbatim>\<open>try/except/finally\<close>. The library is
  not part of the repository, so each call is recorded with the arguments the script
  writes, and what the library answers is a parameter of the model (\<open>env\<close>).

  A call is the method named in the source, its positional arguments and its keyword
  arguments, in the order they are written.
\<close>

datatype pyval = PyStr string | PyInt int | PyBool bool

datatype call = Call (callee: string) (args: "pyval list") (kwargs: "(string \<times> pyval) list")

text \<open>
  \<open>exn\<close> is an instance of Python's \<^verbatim>\<open>Exception\<close>, the class that the handler of line 21
  names; \<open>message\<close> is what \<^verbatim>\<open>str(e)\<close> gives. Playwright reports navigation errors and
  timeouts through subclasses of \<^verbatim>\<open>Exception\<close>. Interrupts deriving from
  \<^verbatim>\<open>BaseException\<close> only are not part of this model.
\<close>

datatype exn = Exception (message: string)

datatype outcome = Returned | Raised exn

text \<open>
  The environment: \<open>respond\<close> is the library's answer to a call (it returns or it raises),
  \<open>render\<close> is the image the browser produces for the page (\<open>True\<close>: the full scrollable
  page, \<open>False\<close>: the viewport), and \<open>full_page_default\<close> is the value the library takes
  for \<^verbatim>\<open>full_page\<close> when the caller does not pass it. \<open>left_on_failure\<close> is what a
  screenshot call that raises has left at its path: \<open>None\<close> when it raised without opening
  the file (the browser refused, the file could not be opened), \<open>Some bytes\<close> when it had
  opened the file for writing, which creates or truncates it, and raised with \<open>bytes\<close>
  written (the disk is full, say). The script has no code that removes such a file.
\<close>

record env =
  respond :: "call \<Rightarrow> outcome"
  full_page_default :: bool
  render :: "bool \<Rightarrow> string"
  left_on_failure :: "string option"

text \<open>
  The world the script acts on: the library calls made so far, the texts handed to
  \<^verbatim>\<open>print\<close> (one element for each call of \<^verbatim>\<open>print\<close>), and the files on disk.
\<close>

record world =
  calls :: "call list"
  stdout :: "string list"
  files :: "string \<rightharpoonup> string"

section \<open>The constants of the script\<close>

definition target_url :: string where
  "target_url = ''https://florisboard.github.io/florisboard/''"

definition screenshot_path :: string where
  "screenshot_path = ''docs_screenshot.png''"

definition success_message :: string where
  "success_message = ''Documentation page loaded successfully and screenshot taken.''"

definition error_message :: "exn \<Rightarrow> string" where
  \<comment> \<open>line 22: the f-string \<^verbatim>\<open>f"Error verifying documentation page: {e}"\<close>\<close>
  "error_message e = ''Error verifying documentation page: '' @ message e"

definition enter_call :: call where
  \<comment> \<open>line 6: entering \<^verbatim>\<open>async with async_playwright() as p\<close>\<close>
  "enter_call = Call ''async_playwright.__aenter__'' [] []"

definition exit_call :: call where
  \<comment> \<open>line 6: leaving the \<^verbatim>\<open>async with\<close> block\<close>
  "exit_call = Call ''async_playwright.__aexit__'' [] []"

definition launch_call :: call where
  \<comment> \<open>line 7\<close>
  "launch_call = Call ''p.chromium.launch'' [] []"

definition new_page_call :: call where
  \<comment> \<open>line 8\<close>
  "new_page_call = Call ''browser.new_page'' [] []"

definition goto_call :: call where
  \<comment> \<open>line 11\<close>
  "goto_call = Call ''page.goto'' [PyStr target_url] []"

definition wait_call :: call where
  \<comment> \<open>line 15\<close>
  "wait_call = Call ''page.wait_for_selector'' [PyStr ''h1''] [(''timeout'', PyInt 10000)]"

definition screenshot_call :: call where
  \<comment> \<open>line 18\<close>
  "screenshot_call = Call ''page.screenshot'' [] [(''path'', PyStr screenshot_path)]"

definition close_call :: call where
  \<comment> \<open>line 24\<close>
  "close_call = Call ''browser.close'' [] []"

section \<open>Effects\<close>

definition invoke :: "env \<Rightarrow> call \<Rightarrow> world \<Rightarrow> outcome \<times> world" where
  \<comment> \<open>\<^verbatim>\<open>await\<close> of a library call: the call is made, the library answers\<close>
  "invoke E c w = (respond E c, w\<lparr>calls := calls w @ [c]\<rparr>)"

definition full_page_of :: "env \<Rightarrow> call \<Rightarrow> bool" where
  \<comment> \<open>the extent of a screenshot: the keyword \<^verbatim>\<open>full_page\<close> if passed, the library's default otherwise\<close>
  "full_page_of E c =
     (case map_of (kwargs c) ''full_page'' of
        Some (PyBool b) \<Rightarrow> b
      | _ \<Rightarrow> full_page_default E)"

definition screenshot_effect :: "env \<Rightarrow> call \<Rightarrow> (string \<rightharpoonup> string) \<Rightarrow> (string \<rightharpoonup> string)" where
  \<comment> \<open>a screenshot that returns has saved the image to the keyword \<^verbatim>\<open>path\<close>, if passed\<close>
  "screenshot_effect E c fs =
     (case map_of (kwargs c) ''path'' of
        Some (PyStr p) \<Rightarrow> fs(p \<mapsto> render E (full_page_of E c))
      | _ \<Rightarrow> fs)"

definition failed_screenshot_effect ::
    "env \<Rightarrow> call \<Rightarrow> (string \<rightharpoonup> string) \<Rightarrow> (string \<rightharpoonup> string)" where
  \<comment> \<open>a screenshot that raises may have opened the file at \<^verbatim>\<open>path\<close> before it raised\<close>
  "failed_screenshot_effect E c fs =
     (case map_of (kwargs c) ''path'' of
        Some (PyStr p) \<Rightarrow>
          (case left_on_failure E of
             None \<Rightarrow> fs
           | Some bytes \<Rightarrow> fs(p \<mapsto> bytes))
      | _ \<Rightarrow> fs)"

definition invoke_screenshot :: "env \<Rightarrow> call \<Rightarrow> world \<Rightarrow> outcome \<times> world" where
  \<comment> \<open>\<^verbatim>\<open>await page.screenshot(...)\<close>: the files are the library's to change, whether the
      call returns or raises\<close>
  "invoke_screenshot E c w =
     (case invoke E c w of
        (Raised e, w') \<Rightarrow> (Raised e, w'\<lparr>files := failed_screenshot_effect E c (files w')\<rparr>)
      | (Returned, w') \<Rightarrow> (Returned, w'\<lparr>files := screenshot_effect E c (files w')\<rparr>))"

definition print :: "string \<Rightarrow> world \<Rightarrow> world" where
  "print s w = w\<lparr>stdout := stdout w @ [s]\<rparr>"

section \<open>The script\<close>

definition try_body :: "env \<Rightarrow> world \<Rightarrow> outcome \<times> world" where
  \<comment> \<open>lines 10 to 19, the body of \<^verbatim>\<open>try\<close>: the first call that raises ends it\<close>
  "try_body E w =
     (case invoke E goto_call w of
        (Raised e, w1) \<Rightarrow> (Raised e, w1)
      | (Returned, w1) \<Rightarrow>
     (case invoke E wait_call w1 of
        (Raised e, w2) \<Rightarrow> (Raised e, w2)
      | (Returned, w2) \<Rightarrow>
     (case invoke_screenshot E screenshot_call w2 of
        (Raised e, w3) \<Rightarrow> (Raised e, w3)
      | (Returned, w3) \<Rightarrow> (Returned, print success_message w3))))"

definition try_except :: "env \<Rightarrow> world \<Rightarrow> world" where
  \<comment> \<open>lines 9 to 22: \<^verbatim>\<open>except Exception as e\<close> prints and does not raise again\<close>
  "try_except E w =
     (case try_body E w of
        (Raised e, w') \<Rightarrow> print (error_message e) w'
      | (Returned, w') \<Rightarrow> w')"

definition try_finally :: "env \<Rightarrow> world \<Rightarrow> outcome \<times> world" where
  \<comment> \<open>lines 9 to 24: \<^verbatim>\<open>finally\<close> closes the browser; an exception of \<^verbatim>\<open>close\<close> leaves the function\<close>
  "try_finally E w = invoke E close_call (try_except E w)"

definition with_body :: "env \<Rightarrow> world \<Rightarrow> outcome \<times> world" where
  \<comment> \<open>lines 7 to 24, the body of \<^verbatim>\<open>async with\<close>: lines 7 and 8 stand before \<^verbatim>\<open>try\<close>\<close>
  "with_body E w =
     (case invoke E launch_call w of
        (Raised e, w1) \<Rightarrow> (Raised e, w1)
      | (Returned, w1) \<Rightarrow>
     (case invoke E new_page_call w1 of
        (Raised e, w2) \<Rightarrow> (Raised e, w2)
      | (Returned, w2) \<Rightarrow> try_finally E w2))"

definition verify_docs :: "env \<Rightarrow> world \<Rightarrow> outcome \<times> world" where
  \<comment> \<open>lines 5 to 24. A context manager that fails to enter skips the body and the exit;
      one that was entered is left on every path, and an exception of the body goes on
      unless leaving raises one of its own.\<close>
  "verify_docs E w =
     (case invoke E enter_call w of
        (Raised e, w0) \<Rightarrow> (Raised e, w0)
      | (Returned, w0) \<Rightarrow>
     (case with_body E w0 of
        (r, w1) \<Rightarrow>
     (case invoke E exit_call w1 of
        (Raised e, w2) \<Rightarrow> (Raised e, w2)
      | (Returned, w2) \<Rightarrow> (r, w2))))"

definition initial :: "(string \<rightharpoonup> string) \<Rightarrow> world" where
  "initial fs = \<lparr>calls = [], stdout = [], files = fs\<rparr>"

definition main :: "env \<Rightarrow> (string \<rightharpoonup> string) \<Rightarrow> nat \<times> world" where
  \<comment> \<open>lines 26 and 27: \<^verbatim>\<open>asyncio.run(verify_docs())\<close> at top level. The interpreter ends
      with status 0 when the call returns and with status 1 when an exception leaves it.\<close>
  "main E fs =
     (case verify_docs E (initial fs) of
        (Returned, w) \<Rightarrow> (0, w)
      | (Raised e, w) \<Rightarrow> (1, w))"

fun runs :: "env list \<Rightarrow> (string \<rightharpoonup> string) \<Rightarrow> (string \<rightharpoonup> string)" where
  \<comment> \<open>the program run once for each environment, one run after the other, on the same disk\<close>
  "runs [] fs = fs"
| "runs (E # Es) fs = runs Es (files (snd (main E fs)))"

section \<open>Paths through the script\<close>

abbreviation ok :: "env \<Rightarrow> call \<Rightarrow> bool" where
  "ok E c \<equiv> respond E c = Returned"

definition page_opens :: "env \<Rightarrow> bool" where
  \<comment> \<open>lines 6 to 8 went through: the \<^verbatim>\<open>try\<close> statement is reached\<close>
  "page_opens E = (ok E enter_call \<and> ok E launch_call \<and> ok E new_page_call)"

definition success_branch :: "env \<Rightarrow> bool" where
  \<comment> \<open>lines 6 to 18 went through: line 19 is reached\<close>
  "success_branch E =
     (page_opens E \<and> ok E goto_call \<and> ok E wait_call \<and> ok E screenshot_call)"

definition scripted :: "(string \<times> exn) list \<Rightarrow> env" where
  \<comment> \<open>A concrete environment: the listed methods raise the exception given, every other
      call returns. \<^verbatim>\<open>full_page\<close> defaults to false, as Playwright documents it. A
      screenshot that raises has not opened its file.\<close>
  "scripted failing =
     \<lparr>respond = (\<lambda>c. case map_of failing (callee c) of Some e \<Rightarrow> Raised e | None \<Rightarrow> Returned),
      full_page_default = False,
      render = (\<lambda>b. if b then ''full page'' else ''viewport''),
      left_on_failure = None\<rparr>"

definition status_after_try :: "env \<Rightarrow> nat" where
  \<comment> \<open>the exit status of a run that reached \<^verbatim>\<open>try\<close>: whatever lines 10 to 22 did, only
      \<^verbatim>\<open>browser.close()\<close> and leaving \<^verbatim>\<open>async with\<close> can still raise\<close>
  "status_after_try E = (if ok E close_call \<and> ok E exit_call then 0 else 1)"

section \<open>Basic facts\<close>

lemmas call_defs = enter_call_def exit_call_def launch_call_def new_page_call_def
  goto_call_def wait_call_def screenshot_call_def close_call_def

lemma scripted_simps [simp]:
  "respond (scripted fl) c =
     (case map_of fl (callee c) of Some e \<Rightarrow> Raised e | None \<Rightarrow> Returned)"
  "full_page_default (scripted fl) = False"
  "render (scripted fl) b = (if b then ''full page'' else ''viewport'')"
  "left_on_failure (scripted fl) = None"
  by (simp_all add: scripted_def)

lemma callee_simps [simp]:
  "callee enter_call = ''async_playwright.__aenter__''"
  "callee exit_call = ''async_playwright.__aexit__''"
  "callee launch_call = ''p.chromium.launch''"
  "callee new_page_call = ''browser.new_page''"
  "callee goto_call = ''page.goto''"
  "callee wait_call = ''page.wait_for_selector''"
  "callee screenshot_call = ''page.screenshot''"
  "callee close_call = ''browser.close''"
  by (simp_all add: call_defs)

lemma calls_distinct:
  "distinct [enter_call, launch_call, new_page_call, goto_call, wait_call,
     screenshot_call, close_call, exit_call]"
  by (simp add: call_defs)

lemma timeout_kwarg [simp]:
  "map_of (kwargs enter_call) ''timeout'' = None"
  "map_of (kwargs exit_call) ''timeout'' = None"
  "map_of (kwargs launch_call) ''timeout'' = None"
  "map_of (kwargs new_page_call) ''timeout'' = None"
  "map_of (kwargs goto_call) ''timeout'' = None"
  "map_of (kwargs wait_call) ''timeout'' = Some (PyInt 10000)"
  "map_of (kwargs screenshot_call) ''timeout'' = None"
  "map_of (kwargs close_call) ''timeout'' = None"
  by (simp_all add: call_defs)

lemma screenshot_effect_script [simp]:
  "screenshot_effect E screenshot_call fs =
     fs(screenshot_path \<mapsto> render E (full_page_default E))"
  by (simp add: screenshot_effect_def full_page_of_def screenshot_call_def)

lemma failed_screenshot_effect_script [simp]:
  "failed_screenshot_effect E screenshot_call fs =
     (case left_on_failure E of None \<Rightarrow> fs | Some bytes \<Rightarrow> fs(screenshot_path \<mapsto> bytes))"
  by (simp add: failed_screenshot_effect_def screenshot_call_def)

subsection \<open>The try statement, branch by branch\<close>

lemma try_except_goto_raises:
  "respond E goto_call = Raised e \<Longrightarrow>
   try_except E w = w\<lparr>calls := calls w @ [goto_call], stdout := stdout w @ [error_message e]\<rparr>"
  by (simp add: try_except_def try_body_def invoke_def print_def)

lemma try_except_wait_raises:
  "ok E goto_call \<Longrightarrow> respond E wait_call = Raised e \<Longrightarrow>
   try_except E w =
     w\<lparr>calls := calls w @ [goto_call, wait_call], stdout := stdout w @ [error_message e]\<rparr>"
  by (simp add: try_except_def try_body_def invoke_def print_def)

lemma try_except_screenshot_raises:
  "ok E goto_call \<Longrightarrow> ok E wait_call \<Longrightarrow> respond E screenshot_call = Raised e \<Longrightarrow>
   try_except E w =
     w\<lparr>calls := calls w @ [goto_call, wait_call, screenshot_call],
       stdout := stdout w @ [error_message e],
       files := (case left_on_failure E of
                   None \<Rightarrow> files w
                 | Some bytes \<Rightarrow> (files w)(screenshot_path \<mapsto> bytes))\<rparr>"
  by (simp add: try_except_def try_body_def invoke_screenshot_def invoke_def print_def
      split: option.splits)

lemma try_except_success:
  "ok E goto_call \<Longrightarrow> ok E wait_call \<Longrightarrow> ok E screenshot_call \<Longrightarrow>
   try_except E w =
     w\<lparr>calls := calls w @ [goto_call, wait_call, screenshot_call],
       stdout := stdout w @ [success_message],
       files := (files w)(screenshot_path \<mapsto> render E (full_page_default E))\<rparr>"
  by (simp add: try_except_def try_body_def invoke_screenshot_def invoke_def print_def)

subsection \<open>The whole function, branch by branch\<close>

lemma verify_docs_enter_raises:
  "respond E enter_call = Raised e \<Longrightarrow>
   verify_docs E w = (Raised e, w\<lparr>calls := calls w @ [enter_call]\<rparr>)"
  by (simp add: verify_docs_def invoke_def)

lemma verify_docs_launch_raises:
  "ok E enter_call \<Longrightarrow> respond E launch_call = Raised e \<Longrightarrow>
   verify_docs E w =
     (case respond E exit_call of Raised x \<Rightarrow> Raised x | Returned \<Rightarrow> Raised e,
      w\<lparr>calls := calls w @ [enter_call, launch_call, exit_call]\<rparr>)"
  by (simp add: verify_docs_def with_body_def invoke_def split: outcome.splits)

lemma verify_docs_new_page_raises:
  "ok E enter_call \<Longrightarrow> ok E launch_call \<Longrightarrow> respond E new_page_call = Raised e \<Longrightarrow>
   verify_docs E w =
     (case respond E exit_call of Raised x \<Rightarrow> Raised x | Returned \<Rightarrow> Raised e,
      w\<lparr>calls := calls w @ [enter_call, launch_call, new_page_call, exit_call]\<rparr>)"
  by (simp add: verify_docs_def with_body_def invoke_def split: outcome.splits)

lemma verify_docs_page_opens:
  "page_opens E \<Longrightarrow>
   verify_docs E w =
     (case respond E exit_call of Raised x \<Rightarrow> Raised x | Returned \<Rightarrow> respond E close_call,
      (try_except E (w\<lparr>calls := calls w @ [enter_call, launch_call, new_page_call]\<rparr>))
        \<lparr>calls :=
           calls (try_except E (w\<lparr>calls := calls w @ [enter_call, launch_call, new_page_call]\<rparr>))
           @ [close_call, exit_call]\<rparr>)"
  by (simp add: page_opens_def verify_docs_def with_body_def try_finally_def invoke_def
      split: outcome.splits)

lemma run_cases [case_names enter launch new_page goto wait screenshot success]:
  obtains e where "respond E enter_call = Raised e"
  | e where "ok E enter_call" "respond E launch_call = Raised e"
  | e where "ok E enter_call" "ok E launch_call" "respond E new_page_call = Raised e"
  | e where "page_opens E" "respond E goto_call = Raised e"
  | e where "page_opens E" "ok E goto_call" "respond E wait_call = Raised e"
  | e where "page_opens E" "ok E goto_call" "ok E wait_call"
      "respond E screenshot_call = Raised e"
  | "success_branch E"
  unfolding page_opens_def success_branch_def by (metis outcome.exhaust)

subsection \<open>The program, branch by branch\<close>

lemma main_enter_raises:
  "respond E enter_call = Raised e \<Longrightarrow>
   main E fs = (1, \<lparr>calls = [enter_call], stdout = [], files = fs\<rparr>)"
  by (simp add: main_def initial_def verify_docs_enter_raises)

lemma main_launch_raises:
  "ok E enter_call \<Longrightarrow> respond E launch_call = Raised e \<Longrightarrow>
   main E fs = (1, \<lparr>calls = [enter_call, launch_call, exit_call], stdout = [], files = fs\<rparr>)"
  by (simp add: main_def initial_def verify_docs_launch_raises split: outcome.splits)

lemma main_new_page_raises:
  "ok E enter_call \<Longrightarrow> ok E launch_call \<Longrightarrow> respond E new_page_call = Raised e \<Longrightarrow>
   main E fs =
     (1, \<lparr>calls = [enter_call, launch_call, new_page_call, exit_call], stdout = [],
          files = fs\<rparr>)"
  by (simp add: main_def initial_def verify_docs_new_page_raises split: outcome.splits)

lemma main_goto_raises:
  "page_opens E \<Longrightarrow> respond E goto_call = Raised e \<Longrightarrow>
   main E fs =
     (status_after_try E,
      \<lparr>calls = [enter_call, launch_call, new_page_call, goto_call, close_call, exit_call],
       stdout = [error_message e], files = fs\<rparr>)"
  by (simp add: main_def initial_def verify_docs_page_opens try_except_goto_raises
      status_after_try_def split: outcome.splits)

lemma main_wait_raises:
  "page_opens E \<Longrightarrow> ok E goto_call \<Longrightarrow> respond E wait_call = Raised e \<Longrightarrow>
   main E fs =
     (status_after_try E,
      \<lparr>calls = [enter_call, launch_call, new_page_call, goto_call, wait_call, close_call,
         exit_call],
       stdout = [error_message e], files = fs\<rparr>)"
  by (simp add: main_def initial_def verify_docs_page_opens try_except_wait_raises
      status_after_try_def split: outcome.splits)

lemma main_screenshot_raises:
  "page_opens E \<Longrightarrow> ok E goto_call \<Longrightarrow> ok E wait_call \<Longrightarrow>
   respond E screenshot_call = Raised e \<Longrightarrow>
   main E fs =
     (status_after_try E,
      \<lparr>calls = [enter_call, launch_call, new_page_call, goto_call, wait_call, screenshot_call,
         close_call, exit_call],
       stdout = [error_message e],
       files = (case left_on_failure E of
                  None \<Rightarrow> fs
                | Some bytes \<Rightarrow> fs(screenshot_path \<mapsto> bytes))\<rparr>)"
  by (simp add: main_def initial_def verify_docs_page_opens try_except_screenshot_raises
      status_after_try_def split: outcome.splits option.splits)

lemma main_success:
  "success_branch E \<Longrightarrow>
   main E fs =
     (status_after_try E,
      \<lparr>calls = [enter_call, launch_call, new_page_call, goto_call, wait_call, screenshot_call,
         close_call, exit_call],
       stdout = [success_message],
       files = fs(screenshot_path \<mapsto> render E (full_page_default E))\<rparr>)"
  by (simp add: success_branch_def main_def initial_def verify_docs_page_opens
      try_except_success status_after_try_def split: outcome.splits)

lemma files_after_success:
  "success_branch E \<Longrightarrow>
   files (snd (main E fs)) = fs(screenshot_path \<mapsto> render E (full_page_default E))"
  by (simp add: main_success)

lemma runs_success:
  "Es \<noteq> [] \<Longrightarrow> \<forall>E \<in> set Es. success_branch E \<Longrightarrow>
   runs Es fs = fs(screenshot_path \<mapsto> render (last Es) (full_page_default (last Es)))"
proof (induction Es arbitrary: fs)
  case Nil
  then show ?case by simp
next
  case (Cons E Es)
  let ?fs = "fs(screenshot_path \<mapsto> render E (full_page_default E))"
  from Cons.prems have step: "runs (E # Es) fs = runs Es ?fs"
    by (simp add: files_after_success)
  show ?case
  proof (cases "Es = []")
    case True
    with step show ?thesis by simp
  next
    case False
    moreover from Cons.prems have "\<forall>E \<in> set Es. success_branch E" by simp
    ultimately have "runs Es ?fs =
        ?fs(screenshot_path \<mapsto> render (last Es) (full_page_default (last Es)))"
      by (rule Cons.IH)
    also have "\<dots> = fs(screenshot_path \<mapsto> render (last Es) (full_page_default (last Es)))"
      by (rule fun_upd_upd)
    finally show ?thesis using step False by simp
  qed
qed

section \<open>The claims\<close>

subsection \<open>C1: the successful run\<close>

text \<open>
  Claim C1, amended. In every run in which the page opens, navigation succeeds, an
  \<^verbatim>\<open>h1\<close> appears within the 10-second wait and the screenshot call itself returns, the
  screenshot is saved at \<^verbatim>\<open>docs_screenshot.png\<close>, the success message is the one text
  printed, and \<^verbatim>\<open>browser.close()\<close> is called after the screenshot, before the run ends.
\<close>

theorem success_run_saves_and_reports:
  assumes "page_opens E" and "ok E goto_call" and "ok E wait_call" and "ok E screenshot_call"
  shows "files (snd (main E fs)) screenshot_path = Some (render E (full_page_default E))
    \<and> stdout (snd (main E fs)) = [success_message]
    \<and> calls (snd (main E fs)) =
        [enter_call, launch_call, new_page_call, goto_call, wait_call, screenshot_call,
         close_call, exit_call]"
  using assms main_success [of E fs] by (simp add: success_branch_def)

text \<open>The theorem at the run in which every call returns, on an empty disk.\<close>

theorem success_run_saves_and_reports_witness:
  "page_opens (scripted []) \<and> ok (scripted []) goto_call \<and> ok (scripted []) wait_call
   \<and> ok (scripted []) screenshot_call
   \<and> files (snd (main (scripted []) Map.empty)) screenshot_path = Some ''viewport''
   \<and> stdout (snd (main (scripted []) Map.empty)) = [success_message]
   \<and> calls (snd (main (scripted []) Map.empty)) =
       [enter_call, launch_call, new_page_call, goto_call, wait_call, screenshot_call,
        close_call, exit_call]"
proof -
  have h: "page_opens (scripted [])" "ok (scripted []) goto_call" "ok (scripted []) wait_call"
    "ok (scripted []) screenshot_call"
    by (simp_all add: page_opens_def)
  from success_run_saves_and_reports [OF h, of Map.empty] h show ?thesis by simp
qed

text \<open>
  As the claim is worded, navigation and the heading wait are all it asks for. When they
  succeed and \<^verbatim>\<open>page.screenshot\<close> raises (here: the file cannot be written), no file
  appears and the text printed is the error message.
\<close>

theorem heading_found_but_screenshot_raises:
  "page_opens (scripted [(''page.screenshot'', Exception ''[Errno 13] Permission denied'')])
   \<and> ok (scripted [(''page.screenshot'', Exception ''[Errno 13] Permission denied'')]) goto_call
   \<and> ok (scripted [(''page.screenshot'', Exception ''[Errno 13] Permission denied'')]) wait_call
   \<and> files (snd (main (scripted [(''page.screenshot'',
         Exception ''[Errno 13] Permission denied'')]) Map.empty)) screenshot_path = None
   \<and> stdout (snd (main (scripted [(''page.screenshot'',
         Exception ''[Errno 13] Permission denied'')]) Map.empty))
       = [''Error verifying documentation page: [Errno 13] Permission denied'']"
proof -
  let ?E = "scripted [(''page.screenshot'', Exception ''[Errno 13] Permission denied'')]"
  have h: "page_opens ?E" "ok ?E goto_call" "ok ?E wait_call"
    "respond ?E screenshot_call = Raised (Exception ''[Errno 13] Permission denied'')"
    by (simp_all add: page_opens_def)
  from main_screenshot_raises [OF h, of Map.empty] h show ?thesis
    by (simp add: error_message_def)
qed

subsection \<open>C2: failures inside the try statement\<close>

text \<open>
  Claim C2, amended. In every run in which the page opens and navigating (step 3) or
  waiting for the heading (step 4, a timeout included) raises, the exception is caught:
  the one text printed is the failure message with the exception's description, the
  screenshot call is never made, the files are as before, and whether
  \<^verbatim>\<open>verify_docs\<close> returns depends on \<^verbatim>\<open>browser.close()\<close> and on leaving
  \<^verbatim>\<open>async with\<close> only.
\<close>

theorem navigation_or_wait_failure_caught:
  assumes "page_opens E"
    and "respond E goto_call = Raised e \<or> (ok E goto_call \<and> respond E wait_call = Raised e)"
  shows "stdout (snd (main E fs)) = [error_message e]
    \<and> screenshot_call \<notin> set (calls (snd (main E fs)))
    \<and> files (snd (main E fs)) = fs
    \<and> fst (verify_docs E (initial fs)) =
        (case respond E exit_call of Raised x \<Rightarrow> Raised x | Returned \<Rightarrow> respond E close_call)"
proof -
  have caught: "fst (verify_docs E (initial fs)) =
        (case respond E exit_call of Raised x \<Rightarrow> Raised x | Returned \<Rightarrow> respond E close_call)"
    using assms(1) by (simp add: verify_docs_page_opens)
  from assms(2) show ?thesis
  proof
    assume "respond E goto_call = Raised e"
    from main_goto_raises [OF assms(1) this, of fs] caught
    show ?thesis by (simp add: call_defs)
  next
    assume "ok E goto_call \<and> respond E wait_call = Raised e"
    then have "ok E goto_call" "respond E wait_call = Raised e" by simp_all
    from main_wait_raises [OF assms(1) this, of fs] caught
    show ?thesis by (simp add: call_defs)
  qed
qed

text \<open>The theorem at the run in which the heading wait times out.\<close>

theorem navigation_or_wait_failure_caught_witness:
  "page_opens (scripted [(''page.wait_for_selector'', Exception ''Timeout 10000ms exceeded.'')])
   \<and> ok (scripted [(''page.wait_for_selector'',
         Exception ''Timeout 10000ms exceeded.'')]) goto_call
   \<and> respond (scripted [(''page.wait_for_selector'',
         Exception ''Timeout 10000ms exceeded.'')]) wait_call
       = Raised (Exception ''Timeout 10000ms exceeded.'')
   \<and> stdout (snd (main (scripted [(''page.wait_for_selector'',
         Exception ''Timeout 10000ms exceeded.'')]) Map.empty))
       = [''Error verifying documentation page: Timeout 10000ms exceeded.'']
   \<and> screenshot_call \<notin> set (calls (snd (main (scripted [(''page.wait_for_selector'',
         Exception ''Timeout 10000ms exceeded.'')]) Map.empty)))
   \<and> files (snd (main (scripted [(''page.wait_for_selector'',
         Exception ''Timeout 10000ms exceeded.'')]) Map.empty)) = Map.empty
   \<and> fst (verify_docs (scripted [(''page.wait_for_selector'',
         Exception ''Timeout 10000ms exceeded.'')]) (initial Map.empty)) = Returned"
proof -
  let ?E = "scripted [(''page.wait_for_selector'', Exception ''Timeout 10000ms exceeded.'')]"
  have h: "page_opens ?E" "ok ?E goto_call"
    "respond ?E wait_call = Raised (Exception ''Timeout 10000ms exceeded.'')"
    by (simp_all add: page_opens_def)
  then have "respond ?E goto_call = Raised (Exception ''Timeout 10000ms exceeded.'')
     \<or> (ok ?E goto_call \<and> respond ?E wait_call = Raised (Exception ''Timeout 10000ms exceeded.''))"
    by simp
  from navigation_or_wait_failure_caught [OF h(1) this, of Map.empty] h
  show ?thesis by (simp add: error_message_def)
qed

text \<open>
  Opening the page (step 2, line 8) stands before \<^verbatim>\<open>try\<close>. When it raises, the exception
  leaves \<^verbatim>\<open>verify_docs\<close> and nothing is printed.
\<close>

theorem page_open_failure_escapes:
  "verify_docs (scripted [(''browser.new_page'', Exception ''Target closed'')])
      (initial Map.empty)
     = (Raised (Exception ''Target closed''),
        \<lparr>calls = [enter_call, launch_call, new_page_call, exit_call], stdout = [],
         files = Map.empty\<rparr>)"
  by (simp add: verify_docs_new_page_raises initial_def)

subsection \<open>C3: closing the browser\<close>

text \<open>
  Claim C3, amended. In every run in which the browser is launched and the page opens,
  \<^verbatim>\<open>browser.close()\<close> is called exactly once, after every other step of the run and
  right before \<^verbatim>\<open>async with\<close> is left, whatever navigation, the heading wait and the
  screenshot do.
\<close>

theorem browser_closed_exactly_once:
  assumes "page_opens E"
  shows "count_list (calls (snd (main E fs))) close_call = 1
    \<and> (\<exists>steps. calls (snd (main E fs)) =
          [enter_call, launch_call, new_page_call] @ steps @ [close_call, exit_call])"
proof -
  have "ok E enter_call" "ok E launch_call" "ok E new_page_call"
    using assms by (simp_all add: page_opens_def)
  then show ?thesis
  proof (cases E rule: run_cases)
    case (goto e)
    from main_goto_raises [OF this, of fs] show ?thesis by (simp add: call_defs)
  next
    case (wait e)
    from main_wait_raises [OF this, of fs] show ?thesis by (simp add: call_defs)
  next
    case (screenshot e)
    from main_screenshot_raises [OF this, of fs] show ?thesis by (simp add: call_defs)
  next
    case success
    from main_success [OF this, of fs] show ?thesis by (simp add: call_defs)
  qed simp_all
qed

text \<open>The theorem at the run in which navigation fails.\<close>

theorem browser_closed_exactly_once_witness:
  "page_opens (scripted [(''page.goto'', Exception ''net::ERR_NAME_NOT_RESOLVED'')])
   \<and> count_list (calls (snd (main (scripted [(''page.goto'',
         Exception ''net::ERR_NAME_NOT_RESOLVED'')]) Map.empty))) close_call = 1
   \<and> (\<exists>steps. calls (snd (main (scripted [(''page.goto'',
         Exception ''net::ERR_NAME_NOT_RESOLVED'')]) Map.empty)) =
          [enter_call, launch_call, new_page_call] @ steps @ [close_call, exit_call])"
proof -
  let ?E = "scripted [(''page.goto'', Exception ''net::ERR_NAME_NOT_RESOLVED'')]"
  have h: "page_opens ?E" by (simp add: page_opens_def)
  from browser_closed_exactly_once [OF h, of Map.empty] h show ?thesis by simp
qed

text \<open>
  The browser is acquired on line 7 and \<^verbatim>\<open>finally\<close> belongs to the \<^verbatim>\<open>try\<close> of line 9.
  When line 8 raises in between, \<^verbatim>\<open>browser.close()\<close> is not called; the run goes straight
  to leaving \<^verbatim>\<open>async with\<close>.
\<close>

theorem browser_not_closed_when_new_page_raises:
  "ok (scripted [(''browser.new_page'', Exception ''Browser closed'')]) launch_call
   \<and> count_list (calls (snd (main (scripted [(''browser.new_page'',
         Exception ''Browser closed'')]) Map.empty))) close_call = 0
   \<and> calls (snd (main (scripted [(''browser.new_page'',
         Exception ''Browser closed'')]) Map.empty))
       = [enter_call, launch_call, new_page_call, exit_call]"
proof -
  let ?E = "scripted [(''browser.new_page'', Exception ''Browser closed'')]"
  have h: "ok ?E enter_call" "ok ?E launch_call"
    "respond ?E new_page_call = Raised (Exception ''Browser closed'')"
    by simp_all
  from main_new_page_raises [OF h, of Map.empty] h show ?thesis by (simp add: call_defs)
qed

subsection \<open>C4: the exit status\<close>

text \<open>
  Claim C4, amended. The process ends with exit status 0 exactly when starting
  Playwright, launching the browser, opening the page, closing the browser and leaving
  \<^verbatim>\<open>async with\<close> all succeed. A failure of navigation, of the heading wait or of the
  screenshot does not change the exit status: it is reported by the printed text only.
\<close>

theorem exit_status_zero_iff:
  "fst (main E fs) = 0 \<longleftrightarrow>
     ok E enter_call \<and> ok E launch_call \<and> ok E new_page_call \<and> ok E close_call
     \<and> ok E exit_call"
proof (cases E rule: run_cases)
  case (enter e) with main_enter_raises [OF enter, of fs] show ?thesis by simp
next
  case (launch e) with main_launch_raises [OF launch, of fs] show ?thesis by simp
next
  case (new_page e) with main_new_page_raises [OF new_page, of fs] show ?thesis by simp
next
  case (goto e) with main_goto_raises [OF goto, of fs] show ?thesis
    by (simp add: status_after_try_def page_opens_def)
next
  case (wait e) with main_wait_raises [OF wait, of fs] show ?thesis
    by (simp add: status_after_try_def page_opens_def)
next
  case (screenshot e) with main_screenshot_raises [OF screenshot, of fs] show ?thesis
    by (simp add: status_after_try_def page_opens_def)
next
  case success with main_success [OF success, of fs] show ?thesis
    by (simp add: status_after_try_def page_opens_def success_branch_def)
qed

text \<open>
  Launching the browser (line 7) stands before \<^verbatim>\<open>try\<close>: when it raises, the exception
  leaves \<^verbatim>\<open>asyncio.run\<close> and the exit status is 1.
\<close>

theorem launch_failure_exit_status:
  "fst (main (scripted [(''p.chromium.launch'', Exception ''Executable does not exist'')])
     Map.empty) = 1"
proof -
  let ?E = "scripted [(''p.chromium.launch'', Exception ''Executable does not exist'')]"
  have h: "ok ?E enter_call"
    "respond ?E launch_call = Raised (Exception ''Executable does not exist'')"
    by simp_all
  from main_launch_raises [OF h, of Map.empty] show ?thesis by simp
qed

subsection \<open>C5: what is printed\<close>

text \<open>
  Claim C5, amended. In every run in which the browser is launched and the page opens,
  exactly one text is printed to standard output, by one call of \<^verbatim>\<open>print\<close>: the success
  confirmation when navigation, the heading wait and the screenshot all succeed, and
  otherwise the error message that embeds the description of the exception one of them
  raised; never both and never none.
\<close>

theorem one_message_when_page_opens:
  assumes "page_opens E"
  shows "(ok E goto_call \<and> ok E wait_call \<and> ok E screenshot_call
            \<and> stdout (snd (main E fs)) = [success_message])
       \<or> (\<exists>e. Raised e \<in> {respond E goto_call, respond E wait_call, respond E screenshot_call}
            \<and> stdout (snd (main E fs)) = [error_message e])"
proof -
  have "ok E enter_call" "ok E launch_call" "ok E new_page_call"
    using assms by (simp_all add: page_opens_def)
  then show ?thesis
  proof (cases E rule: run_cases)
    case (goto e)
    from main_goto_raises [OF this, of fs] goto show ?thesis by auto
  next
    case (wait e)
    from main_wait_raises [OF this, of fs] wait show ?thesis by auto
  next
    case (screenshot e)
    from main_screenshot_raises [OF this, of fs] screenshot show ?thesis by auto
  next
    case success
    from main_success [OF this, of fs] success show ?thesis by (simp add: success_branch_def)
  qed simp_all
qed

text \<open>The theorem at the run in which the host cannot be resolved.\<close>

theorem one_message_when_page_opens_witness:
  "page_opens (scripted [(''page.goto'', Exception ''net::ERR_NAME_NOT_RESOLVED'')])
   \<and> respond (scripted [(''page.goto'', Exception ''net::ERR_NAME_NOT_RESOLVED'')]) goto_call
       = Raised (Exception ''net::ERR_NAME_NOT_RESOLVED'')
   \<and> stdout (snd (main (scripted [(''page.goto'',
         Exception ''net::ERR_NAME_NOT_RESOLVED'')]) Map.empty))
       = [''Error verifying documentation page: net::ERR_NAME_NOT_RESOLVED'']"
proof -
  let ?E = "scripted [(''page.goto'', Exception ''net::ERR_NAME_NOT_RESOLVED'')]"
  have h: "page_opens ?E" by (simp add: page_opens_def)
  from one_message_when_page_opens [OF h, of Map.empty] h show ?thesis
    by (auto simp add: error_message_def)
qed

text \<open>
  When the browser cannot be launched, the exception is raised before \<^verbatim>\<open>try\<close> and
  \<^verbatim>\<open>print\<close> is never called: standard output stays empty.
\<close>

theorem nothing_printed_when_launch_fails:
  "stdout (snd (main (scripted [(''p.chromium.launch'',
      Exception ''Executable does not exist'')]) Map.empty)) = []"
proof -
  let ?E = "scripted [(''p.chromium.launch'', Exception ''Executable does not exist'')]"
  have h: "ok ?E enter_call"
    "respond ?E launch_call = Raised (Exception ''Executable does not exist'')"
    by simp_all
  from main_launch_raises [OF h, of Map.empty] show ?thesis by simp
qed

subsection \<open>C6: the files after a failing run\<close>




subsection \<open>C7: the extent of the screenshot\<close>

text \<open>
  Claim C7, amended. On success of the heading wait, the screenshot call passes the fixed
  filename and nothing else: no \<^verbatim>\<open>full_page\<close> argument. The image saved has the extent
  that the library takes by default, which for Playwright is the viewport and not the full
  page.
\<close>

theorem screenshot_extent_is_library_default:
  assumes "success_branch E"
  shows "files (snd (main E fs)) screenshot_path = Some (render E (full_page_default E))
    \<and> kwargs screenshot_call = [(''path'', PyStr screenshot_path)]
    \<and> full_page_of E screenshot_call = full_page_default E"
  using main_success [OF assms, of fs]
  by (simp add: full_page_of_def screenshot_call_def)

text \<open>The theorem at the run in which every call returns.\<close>

theorem screenshot_extent_is_library_default_witness:
  "success_branch (scripted [])
   \<and> files (snd (main (scripted []) Map.empty)) screenshot_path
       = Some (render (scripted []) (full_page_default (scripted [])))
   \<and> full_page_of (scripted []) screenshot_call = False"
proof -
  have h: "success_branch (scripted [])"
    by (simp add: success_branch_def page_opens_def)
  from screenshot_extent_is_library_default [OF h, of Map.empty] h show ?thesis by simp
qed

text \<open>
  With Playwright's default, the file saved by a successful run holds the viewport image,
  which is not the image of the full page.
\<close>

theorem screenshot_is_viewport_by_default:
  "success_branch (scripted [])
   \<and> render (scripted []) True = ''full page''
   \<and> files (snd (main (scripted []) Map.empty)) screenshot_path = Some ''viewport''"
proof -
  have h: "success_branch (scripted [])"
    by (simp add: success_branch_def page_opens_def)
  from main_success [OF h, of Map.empty] h show ?thesis by simp
qed

subsection \<open>C8: the order of the steps\<close>

text \<open>
  Claim C8. In every run, the page steps made are an initial part of navigate, wait for
  the heading, screenshot, in this order. The wait is made only after navigation has
  returned, and the screenshot only after the wait has returned, that is after an
  \<^verbatim>\<open>h1\<close> has appeared within the timeout. The wait is called with a timeout of 10000
  milliseconds, and no other call of the run is given a timeout.
\<close>

theorem steps_in_fixed_order:
  "prefix (filter (\<lambda>c. c \<in> {goto_call, wait_call, screenshot_call}) (calls (snd (main E fs))))
     [goto_call, wait_call, screenshot_call]
   \<and> (wait_call \<in> set (calls (snd (main E fs))) \<longrightarrow> ok E goto_call)
   \<and> (screenshot_call \<in> set (calls (snd (main E fs))) \<longrightarrow> ok E goto_call \<and> ok E wait_call)
   \<and> map_of (kwargs wait_call) ''timeout'' = Some (PyInt 10000)
   \<and> (\<forall>c \<in> set (calls (snd (main E fs))).
         map_of (kwargs c) ''timeout'' \<noteq> None \<longrightarrow> c = wait_call)"
proof (cases E rule: run_cases)
  case (enter e) with main_enter_raises [OF enter, of fs] show ?thesis
    by (simp add: call_defs)
next
  case (launch e) with main_launch_raises [OF launch, of fs] show ?thesis
    by (simp add: call_defs)
next
  case (new_page e) with main_new_page_raises [OF new_page, of fs] show ?thesis
    by (simp add: call_defs)
next
  case (goto e) with main_goto_raises [OF goto, of fs] show ?thesis
    by (simp add: call_defs)
next
  case (wait e) with main_wait_raises [OF wait, of fs] show ?thesis
    by (simp add: call_defs)
next
  case (screenshot e) with main_screenshot_raises [OF screenshot, of fs] show ?thesis
    by (simp add: call_defs)
next
  case success with main_success [OF success, of fs] show ?thesis
    by (simp add: call_defs success_branch_def)
qed

text \<open>The theorem at the run in which every call returns: all three steps, in order.\<close>

theorem steps_in_fixed_order_witness:
  "filter (\<lambda>c. c \<in> {goto_call, wait_call, screenshot_call})
       (calls (snd (main (scripted []) Map.empty)))
     = [goto_call, wait_call, screenshot_call]
   \<and> screenshot_call \<in> set (calls (snd (main (scripted []) Map.empty)))
   \<and> ok (scripted []) goto_call \<and> ok (scripted []) wait_call
   \<and> filter (\<lambda>c. map_of (kwargs c) ''timeout'' \<noteq> None)
       (calls (snd (main (scripted []) Map.empty)))
     = [wait_call]"
proof -
  have h: "success_branch (scripted [])"
    by (simp add: success_branch_def page_opens_def)
  from steps_in_fixed_order [of "scripted []" Map.empty] main_success [OF h, of Map.empty]
  show ?thesis by (simp add: call_defs)
qed

subsection \<open>C9: running the program again\<close>

text \<open>
  Claim C9. After any number \<open>n \<ge> 1\<close> of runs that reach the success branch, one after the
  other on the same disk, the set of paths is the set after the first of them: the paths
  before, and \<^verbatim>\<open>docs_screenshot.png\<close>. Each run overwrites that file, so that it holds
  the image of the last run.
\<close>

theorem repeated_success_same_paths:
  assumes "Es \<noteq> []" and "\<forall>E \<in> set Es. success_branch E"
  shows "dom (runs Es fs) = dom (runs [hd Es] fs)
    \<and> dom (runs Es fs) = insert screenshot_path (dom fs)
    \<and> runs Es fs = fs(screenshot_path \<mapsto> render (last Es) (full_page_default (last Es)))"
proof -
  from assms have "success_branch (hd Es)" by (cases Es) simp_all
  then have "runs [hd Es] fs =
      fs(screenshot_path \<mapsto> render (hd Es) (full_page_default (hd Es)))"
    by (simp add: files_after_success)
  with runs_success [OF assms, of fs] show ?thesis by simp
qed

text \<open>
  The theorem at two runs on a disk with one file; in the second run the screenshot is
  saved and closing the browser raises afterwards.
\<close>

theorem repeated_success_same_paths_witness:
  "[scripted [], scripted [(''browser.close'', Exception ''Connection closed'')]] \<noteq> []
   \<and> success_branch (scripted [])
   \<and> success_branch (scripted [(''browser.close'', Exception ''Connection closed'')])
   \<and> dom (runs [scripted [], scripted [(''browser.close'', Exception ''Connection closed'')]]
        [''README.md'' \<mapsto> ''text''])
      = dom (runs [scripted []] [''README.md'' \<mapsto> ''text''])
   \<and> dom (runs [scripted [], scripted [(''browser.close'', Exception ''Connection closed'')]]
        [''README.md'' \<mapsto> ''text''])
      = {''docs_screenshot.png'', ''README.md''}"
proof -
  let ?Es = "[scripted [], scripted [(''browser.close'', Exception ''Connection closed'')]]"
  have h: "success_branch (scripted [])"
    "success_branch (scripted [(''browser.close'', Exception ''Connection closed'')])"
    by (simp_all add: success_branch_def page_opens_def)
  then have all: "\<forall>E \<in> set ?Es. success_branch E" by simp
  have ne: "?Es \<noteq> []" by simp
  from repeated_success_same_paths [OF ne all, of "[''README.md'' \<mapsto> ''text'']"] h
  show ?thesis by (simp add: screenshot_path_def files_after_success)
qed

subsection \<open>C10: a failure of the screenshot itself\<close>

text \<open>
  Claim C10. When navigation and the heading wait succeed and the screenshot call raises,
  the same handler catches the exception: the one text printed is the error message with
  its description, the success message is not printed, \<^verbatim>\<open>browser.close()\<close> is still
  called after the screenshot call, and whether \<^verbatim>\<open>verify_docs\<close> returns depends on
  \<^verbatim>\<open>browser.close()\<close> and on leaving \<^verbatim>\<open>async with\<close> only.
\<close>

theorem screenshot_failure_caught:
  assumes "page_opens E" and "ok E goto_call" and "ok E wait_call"
    and "respond E screenshot_call = Raised e"
  shows "stdout (snd (main E fs)) = [error_message e]
    \<and> success_message \<notin> set (stdout (snd (main E fs)))
    \<and> calls (snd (main E fs)) =
        [enter_call, launch_call, new_page_call, goto_call, wait_call, screenshot_call,
         close_call, exit_call]
    \<and> fst (verify_docs E (initial fs)) =
        (case respond E exit_call of Raised x \<Rightarrow> Raised x | Returned \<Rightarrow> respond E close_call)"
  using main_screenshot_raises [OF assms, of fs] assms(1)
  by (simp add: verify_docs_page_opens error_message_def success_message_def)

text \<open>The theorem at the run in which the page is closed while the screenshot is taken.\<close>

theorem screenshot_failure_caught_witness:
  "page_opens (scripted [(''page.screenshot'', Exception ''Target closed'')])
   \<and> ok (scripted [(''page.screenshot'', Exception ''Target closed'')]) goto_call
   \<and> ok (scripted [(''page.screenshot'', Exception ''Target closed'')]) wait_call
   \<and> respond (scripted [(''page.screenshot'', Exception ''Target closed'')]) screenshot_call
       = Raised (Exception ''Target closed'')
   \<and> stdout (snd (main (scripted [(''page.screenshot'', Exception ''Target closed'')])
        Map.empty))
       = [''Error verifying documentation page: Target closed'']
   \<and> calls (snd (main (scripted [(''page.screenshot'', Exception ''Target closed'')])
        Map.empty))
       = [enter_call, launch_call, new_page_call, goto_call, wait_call, screenshot_call,
          close_call, exit_call]
   \<and> fst (verify_docs (scripted [(''page.screenshot'', Exception ''Target closed'')])
        (initial Map.empty)) = Returned"
proof -
  let ?E = "scripted [(''page.screenshot'', Exception ''Target closed'')]"
  have h: "page_opens ?E" "ok ?E goto_call" "ok ?E wait_call"
    "respond ?E screenshot_call = Raised (Exception ''Target closed'')"
    by (simp_all add: page_opens_def)
  from screenshot_failure_caught [OF h, of Map.empty] h show ?thesis
    by (simp add: error_message_def)
qed

end
